theory Spec2Isabelle
  imports Complex_Main "HOL-Library.Sublist"
begin

section \<open>The teacher dashboard of \<^verbatim>\<open>src/pages/teacher.py\<close>\<close>

text \<open>
  The page is one script: it fetches the submissions, converts \<^verbatim>\<open>created_at\<close>, and then
  emits, top to bottom, the summary metrics, two charts, the search and detail view, the
  full table and the CSV download. The model below follows the script section by section.
  What the script shows is a list of page elements, in the order they are emitted; an
  exception stops the script where it is raised, keeps what was already emitted, and adds
  the two messages of the \<^verbatim>\<open>except Exception\<close> handler.

  Modelling decisions.
  \<^item> A Python \<^verbatim>\<open>str\<close> is a list of code points (naturals); \<open>pystr\<close> embeds an ASCII
    literal. Prefix and substring tests of Python therefore compare code points.
  \<^item> A fetched record is a dictionary: for each of the eight fields the key is absent, or
    present with null, or present with a text. \<^verbatim>\<open>pd.DataFrame(data)\<close> has a column for every
    key that at least one record carries; reading a column that no record carries raises
    \<^verbatim>\<open>KeyError\<close>. In a column that exists, an absent key and a null are both a missing cell
    (\<open>None\<close>; pandas holds NaN or None there).
  \<^item> A timestamp is an integer count of nanoseconds since the epoch, the value pandas
    keeps in a \<^verbatim>\<open>Timestamp\<close>.
  \<^item> Two library functions are parameters of the model: \<open>parse\<close>, which reads one
    \<^verbatim>\<open>created_at\<close> text as \<^verbatim>\<open>pd.to_datetime\<close> does (\<open>None\<close> when it rejects the text),
    and \<open>engine\<close>, the part of Python's \<^verbatim>\<open>re\<close> module that is not written out below.
  \<^item> What pandas does with a missing timestamp in \<^verbatim>\<open>resample\<close>, and with a missing
    \<^verbatim>\<open>student_id\<close> in \<^verbatim>\<open>str.contains\<close> and in the select box, is not written out: where
    the script reaches such a call on a frame with such a cell, the page of the model ends
    with the element \<open>Rest_not_modelled\<close>, which says nothing about what follows.
  \<^item> A pass rate is an exact rational; binary floating-point rounding and the
    formatting to one decimal are not modelled.
\<close>

subsection \<open>Data\<close>

type_synonym str = "nat list"

definition pystr :: "string \<Rightarrow> str" where
  "pystr cs = map of_char cs"

type_synonym timestamp = int

text \<open>
  One row of the table \<^verbatim>\<open>student_submissions\<close>. The type parameters are the types of the
  \<^verbatim>\<open>student_id\<close> column, of the six answer, feedback and model columns, and of the
  \<^verbatim>\<open>created_at\<close> column. A fetched record has a \<open>cell\<close> in every field. A row of the data
  frame has a text or nothing in the six middle columns; its \<^verbatim>\<open>created_at\<close> is a timestamp
  or nothing after line 35. A \<open>frame\<close> is a data frame in which every row has its
  \<^verbatim>\<open>student_id\<close> and its timestamp.
\<close>

record ('i, 'c, 't) submission =
  student_id :: 'i
  answer_1 :: 'c
  answer_2 :: 'c
  answer_3 :: 'c
  feedback_1 :: 'c
  feedback_2 :: 'c
  feedback_3 :: 'c
  model :: 'c
  created_at :: 't

datatype cell = Absent | Null | Text str

type_synonym fetched = "(cell, cell, cell) submission"

type_synonym ('i, 't) row = "('i, str option, 't) submission"

type_synonym frame = "(str, timestamp) row list"

text \<open>The exceptions the modelled part of the script can raise.\<close>

datatype exn =
    KeyError string     \<comment> \<open>reading a column that the data frame does not have\<close>
  | DateParseError str  \<comment> \<open>\<^verbatim>\<open>pd.to_datetime\<close> rejects this text\<close>
  | RegexError          \<comment> \<open>\<^verbatim>\<open>re.error\<close>, from compiling the search text\<close>
  | IndexError          \<comment> \<open>\<^verbatim>\<open>.iloc[0]\<close> on an empty selection\<close>

datatype element =
    Info_empty                          \<comment> \<open>line 30: no submission yet\<close>
  | Metric_total nat                    \<comment> \<open>line 40\<close>
  | Metric_rate nat "rat option"        \<comment> \<open>lines 48, 50, 52: question, pass rate\<close>
  | Bar_chart "nat list" "nat list"     \<comment> \<open>lines 62 to 70: pass counts, fail counts\<close>
  | Line_chart "(timestamp \<times> nat) list" \<comment> \<open>lines 74 to 76\<close>
  | Selectbox "str list"                \<comment> \<open>line 91: the options\<close>
  | Detail "(str, timestamp) row"       \<comment> \<open>lines 96 to 110: the row shown\<close>
  | Detail_part nat "(str, timestamp) row"
      \<comment> \<open>the first boxes of lines 99 to 110, as many as were shown before a \<^verbatim>\<open>KeyError\<close>\<close>
  | Table frame                         \<comment> \<open>line 115\<close>
  | Download frame                      \<comment> \<open>lines 118 to 124: the rows written\<close>
  | Error_msg exn                       \<comment> \<open>line 127\<close>
  | Hint                                \<comment> \<open>line 128\<close>
  | Rest_not_modelled                   \<comment> \<open>the script goes on outside the model\<close>

subsection \<open>Loading (lines 27 to 35)\<close>

text \<open>
  \<^verbatim>\<open>pd.DataFrame(data)\<close>: a column exists when some record carries its key; a cell of the
  six middle columns is its text, or missing.
\<close>

definition has_column :: "(fetched \<Rightarrow> cell) \<Rightarrow> fetched list \<Rightarrow> bool" where
  "has_column col data = list_ex (\<lambda>r. col r \<noteq> Absent) data"

fun na :: "cell \<Rightarrow> str option" where
  "na (Text s) = Some s"
| "na Null = None"
| "na Absent = None"

definition dataframe_row :: "fetched \<Rightarrow> (cell, cell) row" where
  "dataframe_row r =
     \<lparr>student_id = student_id r,
      answer_1 = na (answer_1 r), answer_2 = na (answer_2 r), answer_3 = na (answer_3 r),
      feedback_1 = na (feedback_1 r), feedback_2 = na (feedback_2 r),
      feedback_3 = na (feedback_3 r),
      model = na (model r), created_at = created_at r\<rparr>"

definition dataframe :: "fetched list \<Rightarrow> (cell, cell) row list" where
  "dataframe data = map dataframe_row data"

text \<open>The same row with another \<^verbatim>\<open>student_id\<close> and \<^verbatim>\<open>created_at\<close> cell.\<close>

definition rekey :: "('a, 'c, 'b) submission \<Rightarrow> 'i \<Rightarrow> 't \<Rightarrow> ('i, 'c, 't) submission" where
  "rekey r i t =
     \<lparr>student_id = i,
      answer_1 = answer_1 r, answer_2 = answer_2 r, answer_3 = answer_3 r,
      feedback_1 = feedback_1 r, feedback_2 = feedback_2 r, feedback_3 = feedback_3 r,
      model = model r, created_at = t\<rparr>"

text \<open>
  \<^verbatim>\<open>df['created_at'] = pd.to_datetime(df['created_at'])\<close>: every text of the column is
  converted, a missing cell stays missing (NaT); the first text that is rejected raises,
  and then no frame is produced.
\<close>

fun stamp :: "(str \<Rightarrow> timestamp option) \<Rightarrow> cell \<Rightarrow> exn + timestamp option" where
  "stamp parse (Text s) =
     (case parse s of None \<Rightarrow> Inl (DateParseError s) | Some t \<Rightarrow> Inr (Some t))"
| "stamp parse Null = Inr None"
| "stamp parse Absent = Inr None"

fun to_datetime ::
  "(str \<Rightarrow> timestamp option) \<Rightarrow> ('i, cell) row list \<Rightarrow> exn + ('i, timestamp option) row list" where
  "to_datetime parse [] = Inr []"
| "to_datetime parse (r # rs) =
     (case stamp parse (created_at r) of
        Inl e \<Rightarrow> Inl e
      | Inr t \<Rightarrow>
          (case to_datetime parse rs of
             Inl e \<Rightarrow> Inl e
           | Inr df \<Rightarrow> Inr (rekey r (student_id r) t # df)))"

text \<open>
  The data frame as a frame of rows that all have their timestamp (\<open>dated\<close>) and their
  \<^verbatim>\<open>student_id\<close> (\<open>keyed\<close>); \<open>None\<close> when some row has not.
\<close>

fun dated :: "('i, timestamp option) row list \<Rightarrow> ('i, timestamp) row list option" where
  "dated [] = Some []"
| "dated (r # rs) =
     (case created_at r of
        None \<Rightarrow> None
      | Some t \<Rightarrow>
          (case dated rs of
             None \<Rightarrow> None
           | Some df \<Rightarrow> Some (rekey r (student_id r) t # df)))"

fun keyed :: "(cell, 't) row list \<Rightarrow> (str, 't) row list option" where
  "keyed [] = Some []"
| "keyed (r # rs) =
     (case na (student_id r) of
        None \<Rightarrow> None
      | Some i \<Rightarrow>
          (case keyed rs of
             None \<Rightarrow> None
           | Some df \<Rightarrow> Some (rekey r i (created_at r) # df)))"

subsection \<open>Summary metrics (lines 37 to 52)\<close>

text \<open>
  \<^verbatim>\<open>s.startswith(p)\<close> compares the first \<open>length p\<close> code points of \<open>s\<close> with \<open>p\<close>.
  On a missing cell \<^verbatim>\<open>.str.startswith\<close> gives NaN, which \<^verbatim>\<open>.sum()\<close> skips.
\<close>

definition startswith :: "str \<Rightarrow> str \<Rightarrow> bool" where
  "startswith s p = (take (length p) s = p)"

definition q_pass :: "(('i, 't) row \<Rightarrow> str option) \<Rightarrow> ('i, 't) row list \<Rightarrow> nat" where
  "q_pass col df =
     sum_list (map (\<lambda>r. case col r of
                           None \<Rightarrow> 0
                         | Some s \<Rightarrow> if startswith s (pystr ''O:'') then 1 else 0) df)"

definition q1_pass :: "('i, 't) row list \<Rightarrow> nat" where
  "q1_pass df = q_pass feedback_1 df"

definition q2_pass :: "('i, 't) row list \<Rightarrow> nat" where
  "q2_pass df = q_pass feedback_2 df"

definition q3_pass :: "('i, 't) row list \<Rightarrow> nat" where
  "q3_pass df = q_pass feedback_3 df"

text \<open>
  Lines 43 to 45 read the three feedback columns, in this order; the first one that does
  not exist raises \<^verbatim>\<open>KeyError\<close>.
\<close>

definition missing_feedback :: "fetched list \<Rightarrow> string option" where
  "missing_feedback data =
     (if \<not> has_column feedback_1 data then Some ''feedback_1''
      else if \<not> has_column feedback_2 data then Some ''feedback_2''
      else if \<not> has_column feedback_3 data then Some ''feedback_3''
      else None)"

text \<open>
  \<^verbatim>\<open>q_pass / len(df) * 100\<close>. The quotient has no value when the divisor is zero; that
  case is the result \<open>None\<close>.
\<close>

definition pass_rate :: "nat \<Rightarrow> nat \<Rightarrow> rat option" where
  "pass_rate passed n =
     (if n = 0 then None else Some (of_nat passed / of_nat n * 100))"

definition rate_metrics :: "('i, 't) row list \<Rightarrow> element list" where
  "rate_metrics df =
     [Metric_rate 1 (pass_rate (q1_pass df) (length df)),
      Metric_rate 2 (pass_rate (q2_pass df) (length df)),
      Metric_rate 3 (pass_rate (q3_pass df) (length df))]"

definition summary_section :: "('i, 't) row list \<Rightarrow> element list" where
  "summary_section df =
     [Metric_total (length df),
      Metric_rate 1 (pass_rate (q1_pass df) (length df)),
      Metric_rate 2 (pass_rate (q2_pass df) (length df)),
      Metric_rate 3 (pass_rate (q3_pass df) (length df))]"

subsection \<open>Charts (lines 56 to 76)\<close>

definition bar_chart :: "('i, 't) row list \<Rightarrow> element" where
  "bar_chart df =
     Bar_chart [q1_pass df, q2_pass df, q3_pass df]
               [length df - q1_pass df, length df - q2_pass df, length df - q3_pass df]"

definition hour_ns :: int where
  "hour_ns = 3600000000000"

definition hour_slot :: "timestamp \<Rightarrow> int" where
  "hour_slot t = t div hour_ns"

definition floor_hour :: "timestamp \<Rightarrow> timestamp" where
  "floor_hour t = hour_slot t * hour_ns"

text \<open>
  \<^verbatim>\<open>df.set_index('created_at').resample('H').size().reset_index(name='count')\<close>.
  Resampling lays out one bin for every hour from the hour of the earliest row to the hour
  of the latest row, both included, closed on the left and labelled by its start, and
  \<^verbatim>\<open>size\<close> counts the rows of each bin: a bin without rows has count 0.
\<close>

definition df_time :: "('i, timestamp) row list \<Rightarrow> (timestamp \<times> nat) list" where
  "df_time df =
     (case map (\<lambda>r. hour_slot (created_at r)) df of
        [] \<Rightarrow> []
      | k # ks \<Rightarrow>
          map (\<lambda>b. (b * hour_ns, length (filter (\<lambda>r. hour_slot (created_at r) = b) df)))
              [fold min ks k .. fold max ks k])"

definition chart_section :: "('i, timestamp) row list \<Rightarrow> element list" where
  "chart_section df =
     [Bar_chart [q1_pass df, q2_pass df, q3_pass df]
                [length df - q1_pass df, length df - q2_pass df, length df - q3_pass df],
      Line_chart (df_time df)]"

subsection \<open>Search and detail view (lines 78 to 110)\<close>

text \<open>
  \<^verbatim>\<open>df['student_id'].str.contains(search_id)\<close> is called with the defaults of pandas, so
  the search text is a regular expression and a row is kept when \<^verbatim>\<open>re.search\<close> finds a
  match in its \<^verbatim>\<open>student_id\<close>. Written out here is the part of the syntax in which every
  character stands for itself, except the dot, which stands for any character but a
  newline. A pattern with any other special character is handed to \<open>engine\<close>, which
  answers \<open>None\<close> when the pattern does not compile.
\<close>

definition re_special :: "nat list" where
  "re_special = pystr ''^$*+?{}[]|()'' @ [0x5C]"

definition plain_pattern :: "str \<Rightarrow> bool" where
  "plain_pattern pat = list_all (\<lambda>c. c \<notin> set re_special) pat"

definition char_matches :: "nat \<Rightarrow> nat \<Rightarrow> bool" where
  "char_matches p c = (if p = 0x2E then c \<noteq> 0x0A else p = c)"

fun match_here :: "str \<Rightarrow> str \<Rightarrow> bool" where
  "match_here [] s = True"
| "match_here (p # ps) [] = False"
| "match_here (p # ps) (c # cs) = (char_matches p c \<and> match_here ps cs)"

fun search_plain :: "str \<Rightarrow> str \<Rightarrow> bool" where
  "search_plain pat [] = match_here pat []"
| "search_plain pat (c # cs) = (match_here pat (c # cs) \<or> search_plain pat cs)"

definition re_search :: "(str \<Rightarrow> str \<Rightarrow> bool option) \<Rightarrow> str \<Rightarrow> str \<Rightarrow> bool option" where
  "re_search engine pat s =
     (if plain_pattern pat then Some (search_plain pat s) else engine pat s)"

fun str_contains ::
  "(str \<Rightarrow> str \<Rightarrow> bool option) \<Rightarrow> str \<Rightarrow> (str, 't) row list \<Rightarrow> (str, 't) row list option" where
  "str_contains engine pat [] = Some []"
| "str_contains engine pat (r # rs) =
     (case re_search engine pat (student_id r) of
        None \<Rightarrow> None
      | Some b \<Rightarrow>
          (case str_contains engine pat rs of
             None \<Rightarrow> None
           | Some kept \<Rightarrow> Some (if b then r # kept else kept)))"

text \<open>Lines 84 to 87: \<open>display_df\<close>.\<close>

definition filter_by_student ::
  "(str \<Rightarrow> str \<Rightarrow> bool option) \<Rightarrow> (str, 't) row list \<Rightarrow> str \<Rightarrow> exn + (str, 't) row list" where
  "filter_by_student engine df search_id =
     (if search_id \<noteq> [] then
        (case str_contains engine search_id df of
           None \<Rightarrow> Inl RegexError
         | Some display_df \<Rightarrow> Inr display_df)
      else Inr df)"

text \<open>
  Lines 90 to 110. The select box offers the \<^verbatim>\<open>student_id\<close> of every row of \<open>display_df\<close>,
  duplicates included, and returns the chosen text; \<open>choice\<close> is the position the user
  picked, the first option when nothing (or nothing valid) is picked.
\<close>

definition selected_student :: "nat \<Rightarrow> str list \<Rightarrow> str" where
  "selected_student choice options =
     options ! (if choice < length options then choice else 0)"

definition detail_view :: "nat \<Rightarrow> frame \<Rightarrow> element list \<times> exn option" where
  "detail_view choice display_df =
     (if display_df \<noteq> [] then
        (let options = map student_id display_df in
         case filter (\<lambda>r. student_id r = selected_student choice options) display_df of
           [] \<Rightarrow> ([Selectbox options], Some IndexError)
         | row # _ \<Rightarrow> ([Selectbox options, Detail row], None))
      else ([], None))"

definition detail_section ::
  "(str \<Rightarrow> str \<Rightarrow> bool option) \<Rightarrow> str \<Rightarrow> nat \<Rightarrow> frame \<Rightarrow> element list \<times> exn option" where
  "detail_section engine search_id choice df =
     (case filter_by_student engine df search_id of
        Inl e \<Rightarrow> ([], Some e)
      | Inr display_df \<Rightarrow> detail_view choice display_df)"

subsection \<open>Table and download (lines 112 to 124)\<close>

text \<open>
  \<^verbatim>\<open>df.sort_values(by="created_at", ascending=False)\<close> returns a sorted copy for the table
  on screen and leaves \<open>df\<close> as it is. (pandas does not fix the order of rows with equal
  timestamps; the model keeps them in frame order.) \<^verbatim>\<open>df.to_csv(index=False)\<close> writes one
  line for each row of \<open>df\<close>, in the order of \<open>df\<close>; the download is represented by the
  rows written, the text of a line is not modelled.
\<close>

definition sort_values_desc :: "frame \<Rightarrow> frame" where
  "sort_values_desc df = sort_key (\<lambda>r. - created_at r) df"

definition to_csv :: "frame \<Rightarrow> frame" where
  "to_csv df = df"

definition table_section :: "frame \<Rightarrow> element list" where
  "table_section df = [Table (sort_values_desc df), Download (to_csv df)]"

subsection \<open>The page\<close>

definition on_exception :: "exn \<Rightarrow> element list" where
  "on_exception e = [Error_msg e, Hint]"

text \<open>
  Lines 99 to 110 read, of the columns not read before, \<^verbatim>\<open>answer_1\<close> (before any box of
  the detail view is shown), \<^verbatim>\<open>answer_2\<close> (after two boxes), \<^verbatim>\<open>answer_3\<close> (after four) and
  \<^verbatim>\<open>model\<close> (after seven); the first one that does not exist raises \<^verbatim>\<open>KeyError\<close>, and the
  boxes shown before it stay on the page.
\<close>

definition missing_detail :: "fetched list \<Rightarrow> (nat \<times> string) option" where
  "missing_detail data =
     (if \<not> has_column answer_1 data then Some (0, ''answer_1'')
      else if \<not> has_column answer_2 data then Some (2, ''answer_2'')
      else if \<not> has_column answer_3 data then Some (4, ''answer_3'')
      else if \<not> has_column model data then Some (7, ''model'')
      else None)"

fun cut_detail :: "nat \<Rightarrow> element \<Rightarrow> element" where
  "cut_detail k (Detail row) = Detail_part k row"
| "cut_detail k el = el"

text \<open>
  Lines 78 to 124 on a frame \<open>df\<close> whose rows all have \<^verbatim>\<open>student_id\<close> and timestamp. When
  the search leaves no row, the detail view is skipped and with it the reads of lines 99
  to 110.
\<close>

definition detail_and_table ::
  "(str \<Rightarrow> str \<Rightarrow> bool option) \<Rightarrow> str \<Rightarrow> nat \<Rightarrow> fetched list \<Rightarrow> frame \<Rightarrow> element list" where
  "detail_and_table engine search_id choice data df =
     (case detail_section engine search_id choice df of
        (shown, Some e) \<Rightarrow> shown @ on_exception e
      | (shown, None) \<Rightarrow>
          (case missing_detail data of
             None \<Rightarrow> shown @ table_section df
           | Some (k, c) \<Rightarrow>
               if shown = [] then table_section df
               else map (cut_detail k) shown @ on_exception (KeyError c)))"

text \<open>
  Lines 72 to 124, after the bar chart. Line 74 needs the timestamps, lines 85 and 92 read
  the \<^verbatim>\<open>student_id\<close> column.
\<close>

definition lower_page ::
  "(str \<Rightarrow> str \<Rightarrow> bool option) \<Rightarrow> str \<Rightarrow> nat \<Rightarrow> fetched list \<Rightarrow>
   (cell, timestamp option) row list \<Rightarrow> element list" where
  "lower_page engine search_id choice data df =
     (case dated df of
        None \<Rightarrow> [Rest_not_modelled]
      | Some timed \<Rightarrow>
          Line_chart (df_time timed) #
          (if \<not> has_column student_id data then on_exception (KeyError ''student_id'')
           else
             (case keyed timed of
                None \<Rightarrow> [Rest_not_modelled]
              | Some frame \<Rightarrow> detail_and_table engine search_id choice data frame)))"

text \<open>
  The whole script. \<^verbatim>\<open>st.stop()\<close> ends the run with an exception that is not an
  \<^verbatim>\<open>Exception\<close>, so the handler does not see it: the page is the one information box.
\<close>

definition page ::
  "(str \<Rightarrow> timestamp option) \<Rightarrow> (str \<Rightarrow> str \<Rightarrow> bool option) \<Rightarrow> str \<Rightarrow> nat \<Rightarrow>
   fetched list \<Rightarrow> element list" where
  "page parse engine search_id choice data =
     (if data = [] then [Info_empty]
      else if \<not> has_column created_at data then on_exception (KeyError ''created_at'')
      else
        (case to_datetime parse (dataframe data) of
           Inl e \<Rightarrow> on_exception e
         | Inr df \<Rightarrow>
             Metric_total (length df) #
             (case missing_feedback data of
                Some c \<Rightarrow> on_exception (KeyError c)
              | None \<Rightarrow>
                  rate_metrics df @ bar_chart df #
                  lower_page engine search_id choice data df)))"

subsection \<open>Sample data\<close>

text \<open>
  The single record of the spec's scenario: feedback 1 and 3 are \<^verbatim>\<open>"O: "\<close> followed by the
  code points U+C815 U+B2F5, feedback 2 is \<^verbatim>\<open>"X: "\<close> followed by U+C624 U+B2F5. It was
  submitted on 2024-05-01 at 09:12:00 UTC.
\<close>

definition scenario_row :: "(str, timestamp) row" where
  "scenario_row =
     \<lparr>student_id = pystr ''10130'',
      answer_1 = Some (pystr ''a1''), answer_2 = Some (pystr ''a2''), answer_3 = Some (pystr ''a3''),
      feedback_1 = Some (pystr ''O: '' @ [0xC815, 0xB2F5]),
      feedback_2 = Some (pystr ''X: '' @ [0xC624, 0xB2F5]),
      feedback_3 = Some (pystr ''O: '' @ [0xC815, 0xB2F5]),
      model = Some (pystr ''gpt''), created_at = 1714554720000000000\<rparr>"

text \<open>
  A second student, submitted the same day at 11:47:00 UTC, whose record has no feedback
  for question 2; and a second submission of the first student, at that same time.
\<close>

definition late_row :: "(str, timestamp) row" where
  "late_row =
     \<lparr>student_id = pystr ''20210'',
      answer_1 = Some (pystr ''b1''), answer_2 = Some (pystr ''b2''), answer_3 = Some (pystr ''b3''),
      feedback_1 = Some (pystr ''O: good''),
      feedback_2 = None,
      feedback_3 = Some (pystr ''X: no''),
      model = Some (pystr ''gpt''), created_at = 1714564020000000000\<rparr>"

definition twin_row :: "(str, timestamp) row" where
  "twin_row = scenario_row\<lparr>answer_1 := Some (pystr ''second try''), created_at := 1714564020000000000\<rparr>"

text \<open>
  The same rows as fetched: \<open>fetch\<close> gives the record whose keys hold the texts of the row
  and the given \<^verbatim>\<open>created_at\<close> text, a missing cell being an absent key. In \<open>bad_record\<close>
  the \<^verbatim>\<open>created_at\<close> text is not a date; \<open>undated_record\<close> has no \<^verbatim>\<open>created_at\<close> key and
  \<open>anonymous_record\<close> no \<^verbatim>\<open>student_id\<close> key. \<open>sample_parse\<close> reads the two timestamps used
  here the way \<^verbatim>\<open>pd.to_datetime\<close> does and rejects every other text. \<open>no_engine\<close> stands
  for the regular-expression library in examples that never reach it.
\<close>

fun key :: "str option \<Rightarrow> cell" where
  "key None = Absent"
| "key (Some s) = Text s"

definition fetch :: "(str, timestamp) row \<Rightarrow> str \<Rightarrow> fetched" where
  "fetch r s =
     \<lparr>student_id = Text (student_id r),
      answer_1 = key (answer_1 r), answer_2 = key (answer_2 r), answer_3 = key (answer_3 r),
      feedback_1 = key (feedback_1 r), feedback_2 = key (feedback_2 r),
      feedback_3 = key (feedback_3 r),
      model = key (model r), created_at = Text s\<rparr>"

definition scenario_record :: fetched where
  "scenario_record = fetch scenario_row (pystr ''2024-05-01T09:12:00+00:00'')"

definition late_record :: fetched where
  "late_record = fetch late_row (pystr ''2024-05-01T11:47:00+00:00'')"

definition bad_record :: fetched where
  "bad_record = fetch late_row (pystr ''not a date'')"

definition undated_record :: fetched where
  "undated_record = late_record\<lparr>created_at := Absent\<rparr>"

definition anonymous_record :: fetched where
  "anonymous_record = late_record\<lparr>student_id := Absent\<rparr>"

definition sample_parse :: "str \<Rightarrow> timestamp option" where
  "sample_parse =
     map_of [(pystr ''2024-05-01T09:12:00+00:00'', 1714554720000000000),
             (pystr ''2024-05-01T11:47:00+00:00'', 1714564020000000000)]"

definition no_engine :: "str \<Rightarrow> str \<Rightarrow> bool option" where
  "no_engine pat s = None"

subsection \<open>Vocabulary of the properties\<close>

text \<open>
  A literal query is a non-empty search text without any character that is special in a
  regular expression. \<open>is_error_msg\<close> recognises the handler's error box,
  \<open>shown_in_detail\<close> the two elements the detail view can emit, and \<open>is_metric\<close> the
  summary metrics. \<open>frame_row\<close> is the frame row of a fetched record that has its
  \<^verbatim>\<open>student_id\<close> and a \<^verbatim>\<open>created_at\<close> text that \<open>parse\<close> accepts.
\<close>

definition literal_query :: "str \<Rightarrow> bool" where
  "literal_query q = (q \<noteq> [] \<and> list_all (\<lambda>c. c \<notin> set re_special \<and> c \<noteq> 0x2E) q)"


fun shown_in_detail :: "element \<Rightarrow> bool" where
  "shown_in_detail (Selectbox options) = True"
| "shown_in_detail (Detail row) = True"
| "shown_in_detail _ = False"

fun is_metric :: "element \<Rightarrow> bool" where
  "is_metric (Metric_total n) = True"
| "is_metric (Metric_rate q rate) = True"
| "is_metric _ = False"

fun text_of :: "cell \<Rightarrow> str" where
  "text_of (Text s) = s"
| "text_of Null = []"
| "text_of Absent = []"

definition frame_row :: "(str \<Rightarrow> timestamp option) \<Rightarrow> fetched \<Rightarrow> (str, timestamp) row" where
  "frame_row parse r =
     rekey (dataframe_row r) (text_of (student_id r)) (the (parse (text_of (created_at r))))"

section \<open>Properties\<close>

lemmas sample_defs = scenario_row_def late_row_def twin_row_def scenario_record_def
  late_record_def bad_record_def undated_record_def anonymous_record_def sample_parse_def
  no_engine_def pystr_def fetch_def

lemmas page_defs = page_def lower_page_def detail_and_table_def missing_feedback_def
  missing_detail_def has_column_def dataframe_def dataframe_row_def rekey_def
  summary_section_def rate_metrics_def bar_chart_def chart_section_def q1_pass_def q2_pass_def
  q3_pass_def q_pass_def startswith_def pass_rate_def df_time_def hour_slot_def hour_ns_def
  floor_hour_def detail_section_def filter_by_student_def re_search_def plain_pattern_def
  re_special_def char_matches_def detail_view_def selected_student_def table_section_def
  sort_values_desc_def to_csv_def on_exception_def


subsection \<open>Pass counts and pass rates\<close>

lemma startswith_prefix: "startswith s p \<longleftrightarrow> prefix p s"
  unfolding startswith_def prefix_def
  by (metis append_eq_conv_conj append_take_drop_id)

lemma startswith_append: "startswith s p \<longleftrightarrow> (\<exists>rest. s = p @ rest)"
  by (simp add: startswith_prefix prefix_def)

lemma q_pass_count:
  "q_pass col df = length (filter (\<lambda>r. \<exists>rest. col r = Some (pystr ''O:'' @ rest)) df)"
  by (induction df) (auto simp: q_pass_def startswith_append split: option.splits)

lemma lowercase_o_fails: "\<not> startswith (pystr ''o:'' @ rest) (pystr ''O:'')"
  by (simp add: startswith_def pystr_def)

lemma missing_colon_fails: "\<not> startswith (pystr ''O '' @ rest) (pystr ''O:'')"
  by (simp add: startswith_def pystr_def)

text \<open>
  Claim C1. For a non-empty frame, the pass count of each of the three questions is the
  number of rows whose feedback for that question is the two code points \<^verbatim>\<open>O:\<close> followed
  by anything (a lowercase \<^verbatim>\<open>o\<close>, a missing colon or a missing cell does not count), and
  the pass rate is that count divided by the number of rows, times 100.
\<close>

theorem pass_count_and_rate:
  assumes "df \<noteq> []"
  shows "q1_pass df = length (filter (\<lambda>r. \<exists>rest. feedback_1 r = Some (pystr ''O:'' @ rest)) df)
       \<and> q2_pass df = length (filter (\<lambda>r. \<exists>rest. feedback_2 r = Some (pystr ''O:'' @ rest)) df)
       \<and> q3_pass df = length (filter (\<lambda>r. \<exists>rest. feedback_3 r = Some (pystr ''O:'' @ rest)) df)
       \<and> pass_rate (q1_pass df) (length df) = Some (of_nat (q1_pass df) / of_nat (length df) * 100)
       \<and> pass_rate (q2_pass df) (length df) = Some (of_nat (q2_pass df) / of_nat (length df) * 100)
       \<and> pass_rate (q3_pass df) (length df) = Some (of_nat (q3_pass df) / of_nat (length df) * 100)"
  using assms by (simp add: q1_pass_def q2_pass_def q3_pass_def q_pass_count pass_rate_def)

text \<open>
  The spec's single-record scenario for C1: counts 1, 0, 1 and rates 100, 0, 100.
\<close>

theorem pass_count_and_rate_witness:
  "[scenario_row] \<noteq> []
   \<and> [q1_pass [scenario_row], q2_pass [scenario_row], q3_pass [scenario_row]] = [1, 0, 1]
   \<and> [pass_rate (q1_pass [scenario_row]) (length [scenario_row]),
       pass_rate (q2_pass [scenario_row]) (length [scenario_row]),
       pass_rate (q3_pass [scenario_row]) (length [scenario_row])] = [Some 100, Some 0, Some 100]"
  using pass_count_and_rate [of "[scenario_row]"]
  by (simp add: q1_pass_def q2_pass_def q3_pass_def q_pass_def startswith_def pass_rate_def
      scenario_row_def pystr_def)

subsection \<open>Loading\<close>

lemma dataframe_length: "length (dataframe data) = length data"
  by (simp add: dataframe_def)

lemma created_at_dataframe: "created_at (dataframe_row r) = created_at r"
  by (simp add: dataframe_row_def)

lemma student_id_dataframe: "student_id (dataframe_row r) = student_id r"
  by (simp add: dataframe_row_def)

lemma to_datetime_length:
  "to_datetime parse df0 = Inr df \<Longrightarrow> length df = length df0"
  by (induction df0 arbitrary: df) (auto split: sum.splits)





lemma stamp_Inr:
  assumes "stamp parse c = Inr t"
  shows "(\<forall>s. c = Text s \<longrightarrow> parse s = t \<and> t \<noteq> None) \<and> (t \<noteq> None \<longrightarrow> (\<exists>s. c = Text s))"
proof (cases c)
  case (Text s)
  with assms show ?thesis by (cases "parse s") auto
qed (use assms in auto)





lemma frame_of_data:
  "to_datetime parse (dataframe data) = Inr df \<Longrightarrow> dated df = Some timed \<Longrightarrow>
   keyed timed = Some frame \<Longrightarrow>
     frame = map (frame_row parse) data
     \<and> (\<forall>r\<in>set data. \<exists>i s t. student_id r = Text i \<and> created_at r = Text s \<and> parse s = Some t)"
proof (induction data arbitrary: df timed frame)
  case Nil
  then show ?case by (simp add: dataframe_def)
next
  case (Cons r rs)
  from Cons.prems(1) obtain t df' where
    t: "stamp parse (created_at r) = Inr t" and
    df': "to_datetime parse (dataframe rs) = Inr df'" and
    df: "df = rekey (dataframe_row r) (student_id r) t # df'"
    by (auto simp: dataframe_def created_at_dataframe student_id_dataframe split: sum.splits)
  from Cons.prems(2) obtain u timed' where
    u: "t = Some u" and timed': "dated df' = Some timed'" and
    timed: "timed = rekey (rekey (dataframe_row r) (student_id r) t) (student_id r) u # timed'"
    unfolding df by (auto simp: rekey_def split: option.splits)
  from Cons.prems(3) obtain i frame' where
    i: "na (student_id r) = Some i" and frame': "keyed timed' = Some frame'" and
    frame: "frame = rekey (rekey (rekey (dataframe_row r) (student_id r) t) (student_id r) u) i u # frame'"
    unfolding timed by (auto simp: rekey_def split: option.splits)
  obtain s where s: "created_at r = Text s" "parse s = Some u"
    using stamp_Inr [OF t] u by auto
  have id: "student_id r = Text i"
    using i by (cases "student_id r") auto
  have "rekey (rekey (rekey (dataframe_row r) (student_id r) t) (student_id r) u) i u = frame_row parse r"
    by (simp add: frame_row_def rekey_def s id)
  with Cons.IH [OF df' timed' frame'] frame s id show ?case by auto
qed

subsection \<open>The page as a whole\<close>

lemma find_filter_Cons:
  "filter P xs = y # ys \<Longrightarrow> List.find P xs = Some y"
  by (induction xs) (auto split: if_splits)

lemma selected_student_offered:
  "options \<noteq> [] \<Longrightarrow> selected_student choice options \<in> set options"
  by (auto simp: selected_student_def)

lemma detail_view_first:
  assumes "display_df \<noteq> []"
  shows "\<exists>row. detail_view choice display_df =
                 ([Selectbox (map student_id display_df), Detail row], None)
             \<and> List.find (\<lambda>r. student_id r = selected_student choice (map student_id display_df))
                   display_df = Some row"
proof -
  let ?sel = "selected_student choice (map student_id display_df)"
  have "?sel \<in> set (map student_id display_df)"
    using assms by (intro selected_student_offered) simp
  then have "filter (\<lambda>r. student_id r = ?sel) display_df \<noteq> []"
    by (auto simp: filter_empty_conv)
  then obtain row rest where f: "filter (\<lambda>r. student_id r = ?sel) display_df = row # rest"
    by (cases "filter (\<lambda>r. student_id r = ?sel) display_df") auto
  have "detail_view choice display_df = ([Selectbox (map student_id display_df), Detail row], None)"
    using assms f by (simp add: detail_view_def Let_def)
  moreover have "List.find (\<lambda>r. student_id r = ?sel) display_df = Some row"
    by (rule find_filter_Cons [OF f])
  ultimately show ?thesis by blast
qed

lemma detail_view_elements:
  "el \<in> set (fst (detail_view choice display_df)) \<Longrightarrow> shown_in_detail el"
  by (auto simp: detail_view_def Let_def split: if_splits list.splits)

lemma detail_section_elements:
  "el \<in> set (fst (detail_section engine search_id choice df)) \<Longrightarrow> shown_in_detail el"
  by (auto simp: detail_section_def dest: detail_view_elements split: sum.splits)

lemma cut_detail_shown:
  "shown_in_detail el \<Longrightarrow> \<not> is_metric (cut_detail k el) \<and> cut_detail k el \<noteq> Download rows"
  by (cases el) auto

lemma shown_not_metric:
  "shown_in_detail el \<Longrightarrow> \<not> is_metric el \<and> el \<noteq> Download rows"
  by (cases el) auto

lemma detail_and_table_no_metric:
  assumes "el \<in> set (detail_and_table engine search_id choice data frame)"
  shows "\<not> is_metric el"
proof -
  obtain shown ex where d: "detail_section engine search_id choice frame = (shown, ex)"
    by (cases "detail_section engine search_id choice frame")
  have shown: "\<forall>x\<in>set shown. shown_in_detail x"
    using detail_section_elements [of _ engine search_id choice frame] d by auto
  have a: "\<forall>x\<in>set shown. \<not> is_metric x"
    using shown shown_not_metric by blast
  have b: "\<forall>x\<in>set (map (cut_detail k) shown). \<not> is_metric x" for k
    using shown cut_detail_shown by auto
  have c: "\<forall>x\<in>set (table_section frame). \<not> is_metric x"
          "\<forall>x\<in>set (on_exception e). \<not> is_metric x" for e
    by (simp_all add: table_section_def on_exception_def)
  show ?thesis
    using assms a b c unfolding detail_and_table_def d
    by (auto split: option.splits prod.splits if_splits)
qed

lemma lower_page_no_metric:
  "el \<in> set (lower_page engine search_id choice data df) \<Longrightarrow> \<not> is_metric el"
  by (auto simp: lower_page_def on_exception_def dest: detail_and_table_no_metric
      split: option.splits if_splits)

lemma detail_and_table_download:
  assumes "Download rows \<in> set (detail_and_table engine search_id choice data frame)"
  shows "rows = frame
       \<and> Table (sort_values_desc frame) \<in> set (detail_and_table engine search_id choice data frame)"
proof -
  obtain shown ex where d: "detail_section engine search_id choice frame = (shown, ex)"
    by (cases "detail_section engine search_id choice frame")
  have shown: "\<forall>x\<in>set shown. shown_in_detail x"
    using detail_section_elements [of _ engine search_id choice frame] d by auto
  have no1: "Download rows \<notin> set shown"
  proof
    assume "Download rows \<in> set shown"
    with shown have "shown_in_detail (Download rows)" by blast
    then show False by simp
  qed
  have no2: "Download rows \<notin> set (map (cut_detail k) shown)" for k
  proof
    assume "Download rows \<in> set (map (cut_detail k) shown)"
    then obtain x where x: "x \<in> set shown" "cut_detail k x = Download rows" by auto
    from x(1) shown have "shown_in_detail x" by blast
    from cut_detail_shown [OF this, of k rows] x(2) show False by simp
  qed
  note no = no1 no2
  show ?thesis
    using assms no unfolding detail_and_table_def d
    by (auto simp: on_exception_def table_section_def to_csv_def
        split: option.splits prod.splits if_splits)
qed

lemma lower_page_download:
  assumes "Download rows \<in> set (lower_page engine search_id choice data df)"
  shows "\<exists>timed. dated df = Some timed \<and> keyed timed = Some rows
       \<and> Table (sort_values_desc rows) \<in> set (lower_page engine search_id choice data df)"
  using assms
  by (auto simp: lower_page_def on_exception_def dest: detail_and_table_download
      split: option.splits if_splits)






text \<open>
  Claim C8. On an empty fetch result the page is the information box alone: no error
  message, no metric, no chart, no table and no download.
\<close>

theorem empty_input_signal: "page parse engine search_id choice [] = [Info_empty]"
  by (simp add: page_def)

text \<open>
  Claim C10. Whenever the page shows the metrics, the number of rows is positive and each
  of the three pass rates has a value: the division of lines 48 to 52 is never a division
  by zero, because an empty fetch result stops the script at line 31 and a fetch result
  with rows gives a frame with as many rows.
\<close>

theorem rate_divisor_positive:
  "(Metric_total n \<in> set (page parse engine search_id choice data) \<longrightarrow> 0 < n)
   \<and> (Metric_rate q rate \<in> set (page parse engine search_id choice data) \<longrightarrow> rate \<noteq> None)"
proof (cases "data = [] \<or> \<not> has_column created_at data")
  case True
  then show ?thesis by (auto simp: page_def on_exception_def)
next
  case False
  then have ne: "data \<noteq> []" and col: "has_column created_at data" by auto
  show ?thesis
  proof (cases "to_datetime parse (dataframe data)")
    case (Inl e)
    then show ?thesis using ne col by (simp add: page_def on_exception_def)
  next
    case (Inr df)
    have len: "0 < length df"
      using to_datetime_length [OF Inr] ne by (simp add: dataframe_length)
    have low: "Metric_total n \<notin> set (lower_page engine search_id choice data df)"
              "Metric_rate q rate \<notin> set (lower_page engine search_id choice data df)"
      using lower_page_no_metric [of _ engine search_id choice data df] by fastforce+
    show ?thesis
      using ne col Inr len low
      by (auto simp: page_def on_exception_def rate_metrics_def bar_chart_def pass_rate_def
          split: option.splits)
  qed
qed

text \<open>
  C10 on the one-record fetch result: the total shown is 1 and the rate of question 2 is 0.
\<close>

theorem rate_divisor_positive_witness:
  "Metric_total 1 \<in> set (page sample_parse no_engine [] 0 [scenario_record])
   \<and> Metric_rate 2 (Some 0) \<in> set (page sample_parse no_engine [] 0 [scenario_record])
   \<and> (0::nat) < 1 \<and> Some (0::rat) \<noteq> None"
proof -
  have pg: "page sample_parse no_engine [] 0 [scenario_record] =
              [Metric_total 1, Metric_rate 1 (Some 100), Metric_rate 2 (Some 0),
               Metric_rate 3 (Some 100), Bar_chart [1, 0, 1] [0, 1, 0],
               Line_chart [(1714554000000000000, 1)],
               Selectbox [pystr ''10130''], Detail scenario_row,
               Table [scenario_row], Download [scenario_row]]"
    by (simp add: sample_defs page_defs)
  show ?thesis
    using rate_divisor_positive [of 1 sample_parse no_engine "[]" 0 "[scenario_record]" 2 "Some 0"]
    unfolding pg by simp
qed

subsection \<open>Records that are not well formed\<close>

text \<open>
  Three pages of batches with a missing field. A record without the key \<^verbatim>\<open>answer_2\<close>, alone
  in its batch: the column does not exist, and line 102 raises after two boxes of the detail
  view. A record without \<^verbatim>\<open>created_at\<close> beside one that has it: the batch is loaded, the
  metrics count both records, and the model stops at the resampling. A record whose
  \<^verbatim>\<open>feedback_2\<close> is null, alone in its batch: the column exists, and the whole page is shown.
\<close>

lemma missing_answer_column_example:
  "page sample_parse no_engine [] 0 [scenario_record\<lparr>answer_2 := Absent\<rparr>] =
     [Metric_total 1, Metric_rate 1 (Some 100), Metric_rate 2 (Some 0), Metric_rate 3 (Some 100),
      Bar_chart [1, 0, 1] [0, 1, 0], Line_chart [(1714554000000000000, 1)],
      Selectbox [pystr ''10130''], Detail_part 2 (scenario_row\<lparr>answer_2 := None\<rparr>),
      Error_msg (KeyError ''answer_2''), Hint]"
  by (simp add: sample_defs page_defs)

lemma missing_timestamp_example:
  "page sample_parse no_engine [] 0 [scenario_record, undated_record] =
     [Metric_total 2, Metric_rate 1 (Some 100), Metric_rate 2 (Some 0), Metric_rate 3 (Some 50),
      Bar_chart [2, 0, 1] [0, 2, 1], Rest_not_modelled]"
  by (simp add: sample_defs page_defs)

lemma null_feedback_column_example:
  "page sample_parse no_engine [] 0 [late_record\<lparr>feedback_2 := Null\<rparr>] =
     [Metric_total 1, Metric_rate 1 (Some 100), Metric_rate 2 (Some 0), Metric_rate 3 (Some 0),
      Bar_chart [1, 0, 0] [0, 1, 1], Line_chart [(1714561200000000000, 1)],
      Selectbox [pystr ''20210''], Detail late_row, Table [late_row], Download [late_row]]"
  by (simp add: sample_defs page_defs)




subsection \<open>Hourly buckets\<close>

lemma count_list_map_filter:
  "count_list (map f xs) b = length (filter (\<lambda>x. f x = b) xs)"
  by (induction xs) auto

lemma sum_counts_upto:
  assumes "set ks \<subseteq> {lo..hi}"
  shows "(\<Sum>b\<leftarrow>[lo..hi]. count_list ks b) = length ks"
proof -
  have "(\<Sum>b\<leftarrow>[lo..hi]. count_list ks b) = sum (count_list ks) (set [lo..hi])"
    by (rule sum_list_distinct_conv_sum_set) simp
  also have "\<dots> = length ks"
    using assms by (intro sum_count_set) auto
  finally show ?thesis .
qed

lemma df_time_nonempty:
  assumes "df \<noteq> []"
  shows "df_time df =
           map (\<lambda>b. (b * hour_ns, count_list (map (\<lambda>r. hour_slot (created_at r)) df) b))
               [Min (set (map (\<lambda>r. hour_slot (created_at r)) df)) ..
                Max (set (map (\<lambda>r. hour_slot (created_at r)) df))]"
proof -
  obtain r rs where df: "df = r # rs"
    using assms by (cases df) auto
  have lo: "fold min (map (\<lambda>r. hour_slot (created_at r)) rs) (hour_slot (created_at r)) =
            Min (set (map (\<lambda>r. hour_slot (created_at r)) df))"
    unfolding df list.map by (rule Min.set_eq_fold [symmetric])
  have hi: "fold max (map (\<lambda>r. hour_slot (created_at r)) rs) (hour_slot (created_at r)) =
            Max (set (map (\<lambda>r. hour_slot (created_at r)) df))"
    unfolding df list.map by (rule Max.set_eq_fold [symmetric])
  have "df_time df =
          map (\<lambda>b. (b * hour_ns, length (filter (\<lambda>r. hour_slot (created_at r) = b) df)))
              [fold min (map (\<lambda>r. hour_slot (created_at r)) rs) (hour_slot (created_at r)) ..
               fold max (map (\<lambda>r. hour_slot (created_at r)) rs) (hour_slot (created_at r))]"
    unfolding df_time_def df by simp
  then show ?thesis
    unfolding lo hi count_list_map_filter .
qed

lemma hour_ns_pos: "0 < hour_ns"
  by (simp add: hour_ns_def)

lemma floor_hour_le_iff: "floor_hour t \<le> k * hour_ns \<longleftrightarrow> hour_slot t \<le> k"
  using hour_ns_pos by (simp add: floor_hour_def)

lemma le_floor_hour_iff: "k * hour_ns \<le> floor_hour t \<longleftrightarrow> k \<le> hour_slot t"
  using hour_ns_pos by (simp add: floor_hour_def)

lemma floor_hour_eq_iff: "floor_hour t = k * hour_ns \<longleftrightarrow> hour_slot t = k"
  using hour_ns_pos by (simp add: floor_hour_def)

lemma df_time_slot:
  "(k * hour_ns, n) \<in> set (df_time df) \<longleftrightarrow>
     (\<exists>r1\<in>set df. hour_slot (created_at r1) \<le> k) \<and>
     (\<exists>r2\<in>set df. k \<le> hour_slot (created_at r2)) \<and>
     n = length (filter (\<lambda>r. hour_slot (created_at r) = k) df)"
proof (cases "df = []")
  case True
  then show ?thesis by (simp add: df_time_def)
next
  case False
  let ?S = "set (map (\<lambda>r. hour_slot (created_at r)) df)"
  have fin: "finite ?S" and ne: "?S \<noteq> {}"
    using False by simp_all
  have lo: "Min ?S \<le> k \<longleftrightarrow> (\<exists>r1\<in>set df. hour_slot (created_at r1) \<le> k)"
    using Min_le_iff [OF fin ne, of k] by auto
  have hi: "k \<le> Max ?S \<longleftrightarrow> (\<exists>r2\<in>set df. k \<le> hour_slot (created_at r2))"
    using Max_ge_iff [OF fin ne, of k] by auto
  have "(k * hour_ns, n) \<in> set (df_time df) \<longleftrightarrow>
          Min ?S \<le> k \<and> k \<le> Max ?S \<and> n = length (filter (\<lambda>r. hour_slot (created_at r) = k) df)"
    unfolding df_time_nonempty [OF False] count_list_map_filter
    using hour_ns_pos by auto
  then show ?thesis
    unfolding lo hi .
qed

lemma df_time_label: "(b, n) \<in> set (df_time df) \<Longrightarrow> hour_ns dvd b"
  by (cases "df = []") (auto simp: df_time_def df_time_nonempty)

lemma df_time_keys_distinct: "distinct (map fst (df_time df))"
proof (cases "df = []")
  case True
  then show ?thesis by (simp add: df_time_def)
next
  case False
  have "inj_on (\<lambda>b. b * hour_ns) A" for A
    using hour_ns_pos by (auto simp: inj_on_def)
  then show ?thesis
    unfolding df_time_nonempty [OF False]
    by (simp add: comp_def distinct_map)
qed

lemma df_time_own_bucket:
  assumes "r \<in> set df"
  shows "(floor_hour (created_at r),
          length (filter (\<lambda>r'. floor_hour (created_at r') = floor_hour (created_at r)) df))
         \<in> set (df_time df)"
proof -
  have "(hour_slot (created_at r) * hour_ns,
         length (filter (\<lambda>r'. hour_slot (created_at r') = hour_slot (created_at r)) df))
        \<in> set (df_time df)"
    unfolding df_time_slot using assms by auto
  then show ?thesis
    by (simp add: floor_hour_def [of "created_at r"] floor_hour_eq_iff)
qed

lemma df_time_bucket_count:
  assumes "(b, n) \<in> set (df_time df)"
  shows "n = length (filter (\<lambda>r. floor_hour (created_at r) = b) df)"
proof -
  obtain k where b: "b = k * hour_ns"
    using df_time_label [OF assms] by (auto simp: dvd_def mult.commute)
  show ?thesis
    using assms unfolding b df_time_slot floor_hour_eq_iff by simp
qed

lemma df_time_sum: "sum_list (map snd (df_time df)) = length df"
proof (cases "df = []")
  case True
  then show ?thesis by (simp add: df_time_def)
next
  case False
  define ks where "ks = map (\<lambda>r. hour_slot (created_at r)) df"
  have ne: "ks \<noteq> []" using False by (simp add: ks_def)
  have sub: "set ks \<subseteq> {Min (set ks)..Max (set ks)}"
    using ne by auto
  have "sum_list (map snd (df_time df)) =
          (\<Sum>b\<leftarrow>[Min (set ks)..Max (set ks)]. count_list ks b)"
    unfolding df_time_nonempty [OF False] ks_def by (simp add: comp_def)
  also have "\<dots> = length ks" by (rule sum_counts_upto [OF sub])
  finally show ?thesis by (simp add: ks_def)
qed

text \<open>
  Claim C5. The counts of the buckets add up to the number of rows, and every row falls
  into exactly one bucket, keyed by its \<^verbatim>\<open>created_at\<close> truncated to the hour: no two
  buckets have the same start, the bucket that starts at the truncated timestamp of a row
  is in the series, and the count of every bucket is the number of rows whose truncated
  timestamp is its start.
\<close>

theorem bucket_counts_sum:
  "sum_list (map snd (df_time df)) = length df
   \<and> distinct (map fst (df_time df))
   \<and> (\<forall>r\<in>set df.
        (floor_hour (created_at r),
         length (filter (\<lambda>r'. floor_hour (created_at r') = floor_hour (created_at r)) df))
        \<in> set (df_time df))
   \<and> (\<forall>bucket\<in>set (df_time df).
        snd bucket = length (filter (\<lambda>r. floor_hour (created_at r) = fst bucket) df))"
proof (intro conjI ballI)
  show "sum_list (map snd (df_time df)) = length df" by (rule df_time_sum)
  show "distinct (map fst (df_time df))" by (rule df_time_keys_distinct)
next
  fix r assume "r \<in> set df"
  then show "(floor_hour (created_at r),
              length (filter (\<lambda>r'. floor_hour (created_at r') = floor_hour (created_at r)) df))
             \<in> set (df_time df)"
    by (rule df_time_own_bucket)
next
  fix bucket assume "bucket \<in> set (df_time df)"
  then have "(fst bucket, snd bucket) \<in> set (df_time df)" by simp
  then show "snd bucket = length (filter (\<lambda>r. floor_hour (created_at r) = fst bucket) df)"
    by (rule df_time_bucket_count)
qed

text \<open>
  C5 on three sample rows, two of them in the hour of 11:00: three buckets that start at
  09:00, 10:00 and 11:00, with the counts 1, 0 and 2.
\<close>

theorem bucket_counts_sum_witness:
  "sum_list (map snd (df_time [scenario_row, twin_row, late_row])) = 3
   \<and> map fst (df_time [scenario_row, twin_row, late_row]) =
       [1714554000000000000, 1714557600000000000, 1714561200000000000]
   \<and> (floor_hour (created_at late_row), 2) \<in> set (df_time [scenario_row, twin_row, late_row])
   \<and> (floor_hour (created_at scenario_row), 1) \<in> set (df_time [scenario_row, twin_row, late_row])"
  using bucket_counts_sum [of "[scenario_row, twin_row, late_row]"]
  by (simp add: scenario_row_def late_row_def twin_row_def df_time_def floor_hour_def
      hour_slot_def hour_ns_def)

text \<open>
  Claim C4, as stated, fails: with one submission at 09:12 and one at 11:47 the series has
  three buckets, and the bucket of 10:00 is there with count 0 although no submission
  falls in that hour (the hours of the two submissions are 09:00 and 11:00).
\<close>

theorem bucket_without_submission:
  "df_time [scenario_row, late_row] =
     [(1714554000000000000, 1), (1714557600000000000, 0), (1714561200000000000, 1)]
   \<and> map (floor_hour \<circ> created_at) [scenario_row, late_row] =
     [1714554000000000000, 1714561200000000000]"
  by (simp add: sample_defs page_defs)

text \<open>
  Claim C4, amended. A bucket appears in the series if and only if it starts on a full
  hour that is not before the hour of the earliest submission and not after the hour of
  the latest one; its count is the number of submissions in that hour. So every hour in
  between appears, with count 0 when it has no submission, and a bucket has a positive
  count exactly when some submission falls in its hour.
\<close>

theorem buckets_cover_hour_range:
  "(b, n) \<in> set (df_time df) \<longleftrightarrow>
     hour_ns dvd b \<and>
     (\<exists>r1\<in>set df. floor_hour (created_at r1) \<le> b) \<and>
     (\<exists>r2\<in>set df. b \<le> floor_hour (created_at r2)) \<and>
     n = length (filter (\<lambda>r. floor_hour (created_at r) = b) df)"
proof (cases "hour_ns dvd b")
  case False
  then show ?thesis using df_time_label by blast
next
  case True
  then obtain k where b: "b = k * hour_ns"
    by (auto simp: dvd_def mult.commute)
  show ?thesis
    unfolding b df_time_slot floor_hour_le_iff le_floor_hour_iff floor_hour_eq_iff
    by simp
qed

text \<open>
  The amended C4 on the two sample rows: the empty hour 10:00 and the hour 09:00.
\<close>

theorem buckets_cover_hour_range_witness:
  "(1714557600000000000, 0) \<in> set (df_time [scenario_row, late_row])
   \<and> (1714554000000000000, 1) \<in> set (df_time [scenario_row, late_row])"
  using buckets_cover_hour_range [of 1714557600000000000 0 "[scenario_row, late_row]"]
        buckets_cover_hour_range [of 1714554000000000000 1 "[scenario_row, late_row]"]
  by (simp add: scenario_row_def late_row_def floor_hour_def hour_slot_def hour_ns_def)

subsection \<open>Search\<close>

text \<open>
  Claim C6. With the empty search text the frame is returned as it is, and no exception
  is raised.
\<close>

theorem empty_query_identity: "filter_by_student engine df [] = Inr df"
  by (simp add: filter_by_student_def)

lemma match_here_literal:
  "list_all (\<lambda>c. c \<noteq> 0x2E) pat \<Longrightarrow> match_here pat s \<longleftrightarrow> prefix pat s"
  by (induction pat s rule: match_here.induct) (auto simp: char_matches_def)

lemma search_plain_literal:
  "list_all (\<lambda>c. c \<noteq> 0x2E) pat \<Longrightarrow> search_plain pat s \<longleftrightarrow> sublist pat s"
  by (induction s) (auto simp: match_here_literal sublist_Cons_right)

lemma literal_query_plain:
  "literal_query q \<Longrightarrow> plain_pattern q \<and> list_all (\<lambda>c. c \<noteq> 0x2E) q \<and> q \<noteq> []"
  by (auto simp: literal_query_def plain_pattern_def list_all_iff)

lemma str_contains_literal:
  "literal_query q \<Longrightarrow>
     str_contains engine q df = Some (filter (\<lambda>r. sublist q (student_id r)) df)"
  by (induction df)
     (auto simp: re_search_def search_plain_literal dest: literal_query_plain)

lemma filter_by_student_literal:
  "literal_query q \<Longrightarrow>
     filter_by_student engine df q = Inr (filter (\<lambda>r. sublist q (student_id r)) df)"
  using literal_query_plain [of q]
  by (simp add: filter_by_student_def str_contains_literal)

text \<open>
  Claim C3. The search text is read as a regular expression: \<^verbatim>\<open>1.1\<close> selects the student
  \<^verbatim>\<open>10130\<close>, whose identifier does not contain \<^verbatim>\<open>1.1\<close>, because the dot matches the
  \<^verbatim>\<open>0\<close>. The claim asks for plain substring search; the call at line 85 lacks
  \<^verbatim>\<open>regex=False\<close>.
\<close>

theorem dot_is_wildcard:
  "filter_by_student engine [scenario_row] (pystr ''1.1'') = Inr [scenario_row]
   \<and> student_id scenario_row = pystr ''10130''
   \<and> \<not> sublist (pystr ''1.1'') (pystr ''10130'')"
  by (simp add: sample_defs page_defs sublist_Cons_right)

subsection \<open>Duplicate student identifiers\<close>

text \<open>
  Claim C7, as stated, fails: of two submissions of the student \<^verbatim>\<open>10130\<close> the detail view
  shows the first one, also when the second entry of the select box is chosen; the second
  submission is never shown.
\<close>

theorem detail_shows_one_of_two:
  "detail_section no_engine (pystr ''10130'') 1 [scenario_row, twin_row] =
     ([Selectbox [pystr ''10130'', pystr ''10130''], Detail scenario_row], None)
   \<and> student_id twin_row = student_id scenario_row \<and> twin_row \<noteq> scenario_row"
  by (simp add: sample_defs page_defs)

text \<open>
  Claim C7, amended. For a literal query, the search returns exactly the rows whose
  \<^verbatim>\<open>student_id\<close> contains it, so every submission bearing that \<^verbatim>\<open>student_id\<close> is
  returned, and the select box lists each of them; the detail view shows one row only,
  the first row of the search result that bears the selected \<^verbatim>\<open>student_id\<close>.
\<close>

theorem duplicates_listed_first_shown:
  assumes "literal_query q"
  shows "filter_by_student engine df q = Inr (filter (\<lambda>r. sublist q (student_id r)) df)
       \<and> (\<forall>r\<in>set df. student_id r = q \<longrightarrow>
            (\<exists>row. detail_section engine q choice df =
                     ([Selectbox (map student_id (filter (\<lambda>r. sublist q (student_id r)) df)),
                       Detail row], None)
                 \<and> List.find
                     (\<lambda>r. student_id r =
                        selected_student choice
                          (map student_id (filter (\<lambda>r. sublist q (student_id r)) df)))
                     (filter (\<lambda>r. sublist q (student_id r)) df) = Some row))"
proof (intro conjI ballI impI)
  show "filter_by_student engine df q = Inr (filter (\<lambda>r. sublist q (student_id r)) df)"
    by (rule filter_by_student_literal [OF assms])
next
  fix r assume "r \<in> set df" and "student_id r = q"
  then have "r \<in> set (filter (\<lambda>r. sublist q (student_id r)) df)"
    by simp
  then have ne: "filter (\<lambda>r. sublist q (student_id r)) df \<noteq> []"
    by (auto simp del: set_filter)
  show "\<exists>row. detail_section engine q choice df =
                 ([Selectbox (map student_id (filter (\<lambda>r. sublist q (student_id r)) df)),
                   Detail row], None)
             \<and> List.find
                 (\<lambda>r. student_id r =
                    selected_student choice
                      (map student_id (filter (\<lambda>r. sublist q (student_id r)) df)))
                 (filter (\<lambda>r. sublist q (student_id r)) df) = Some row"
    using detail_view_first [OF ne, of choice]
    by (simp add: detail_section_def filter_by_student_literal [OF assms])
qed

text \<open>
  The amended C7 on three rows, two of them of the student \<^verbatim>\<open>10130\<close>.
\<close>

theorem duplicates_listed_first_shown_witness:
  "literal_query (pystr ''10130'')
   \<and> filter_by_student no_engine [scenario_row, late_row, twin_row] (pystr ''10130'') =
       Inr [scenario_row, twin_row]
   \<and> detail_section no_engine (pystr ''10130'') 1 [scenario_row, late_row, twin_row] =
       ([Selectbox [pystr ''10130'', pystr ''10130''], Detail scenario_row], None)"
  using duplicates_listed_first_shown [of "pystr ''10130''" no_engine
      "[scenario_row, late_row, twin_row]" 1]
  by (simp add: sample_defs page_defs literal_query_def sublist_Cons_right)

subsection \<open>Table and export\<close>

lemma sort_values_desc_sorted:
  "sorted_wrt (\<lambda>a b. created_at b \<le> created_at a) (sort_values_desc df)"
proof -
  have "sorted (map (\<lambda>r. - created_at r) (sort_values_desc df))"
    unfolding sort_values_desc_def by (rule sorted_sort_key)
  then show ?thesis
    by (simp add: sorted_map)
qed

text \<open>
  Claim C2, as stated, fails: the rows written to the CSV are in fetch order, here the
  submission of 09:12 before that of 11:47, not most recent first. Only the table on
  screen is sorted.
\<close>

theorem export_not_sorted:
  "page sample_parse no_engine [] 0 [scenario_record, late_record] =
     [Metric_total 2, Metric_rate 1 (Some 100), Metric_rate 2 (Some 0), Metric_rate 3 (Some 50),
      Bar_chart [2, 0, 1] [0, 2, 1],
      Line_chart [(1714554000000000000, 1), (1714557600000000000, 0), (1714561200000000000, 1)],
      Selectbox [pystr ''10130'', pystr ''20210''], Detail scenario_row,
      Table [late_row, scenario_row], Download [scenario_row, late_row]]
   \<and> created_at scenario_row < created_at late_row"
  by (simp add: sample_defs page_defs)

text \<open>
  Claim C2, amended. Whenever the page offers the download, the rows written are the full
  frame, every fetched record in fetch order, whatever the search text and the selection
  are; the sort by \<^verbatim>\<open>created_at\<close>, most recent first, is applied to the table on screen
  only.
\<close>

theorem export_in_fetch_order:
  assumes "Download rows \<in> set (page parse engine search_id choice data)"
  shows "rows = map (frame_row parse) data
       \<and> (\<forall>r\<in>set data. \<exists>i s t. student_id r = Text i \<and> created_at r = Text s \<and> parse s = Some t)
       \<and> Table (sort_values_desc rows) \<in> set (page parse engine search_id choice data)
       \<and> sorted_wrt (\<lambda>a b. created_at b \<le> created_at a) (sort_values_desc rows)"
proof -
  have ne: "data \<noteq> []" and col: "has_column created_at data"
    using assms by (auto simp: page_def on_exception_def split: if_splits)
  obtain df where df: "to_datetime parse (dataframe data) = Inr df"
    using assms ne col
    by (cases "to_datetime parse (dataframe data)") (auto simp: page_def on_exception_def)
  have fb: "missing_feedback data = None"
    using assms ne col df by (auto simp: page_def on_exception_def split: option.splits)
  have pg: "page parse engine search_id choice data =
              Metric_total (length df) # rate_metrics df @ bar_chart df #
              lower_page engine search_id choice data df"
    using ne col df fb by (simp add: page_def)
  have "Download rows \<in> set (lower_page engine search_id choice data df)"
    using assms unfolding pg by (auto simp: rate_metrics_def bar_chart_def)
  from lower_page_download [OF this] obtain timed where
    timed: "dated df = Some timed" and rows: "keyed timed = Some rows" and
    tab: "Table (sort_values_desc rows) \<in> set (lower_page engine search_id choice data df)"
    by blast
  have "Table (sort_values_desc rows) \<in> set (page parse engine search_id choice data)"
    unfolding pg using tab by simp
  then show ?thesis
    using frame_of_data [OF df timed rows] sort_values_desc_sorted by blast
qed

text \<open>
  The amended C2 with a search text that selects the second student only: the download
  still holds both rows, in fetch order.
\<close>

theorem export_in_fetch_order_witness:
  "Download [scenario_row, late_row]
     \<in> set (page sample_parse no_engine (pystr ''202'') 0 [scenario_record, late_record])
   \<and> Table [late_row, scenario_row]
     \<in> set (page sample_parse no_engine (pystr ''202'') 0 [scenario_record, late_record])"
proof -
  have pg: "page sample_parse no_engine (pystr ''202'') 0 [scenario_record, late_record] =
     [Metric_total 2, Metric_rate 1 (Some 100), Metric_rate 2 (Some 0), Metric_rate 3 (Some 50),
      Bar_chart [2, 0, 1] [0, 2, 1],
      Line_chart [(1714554000000000000, 1), (1714557600000000000, 0), (1714561200000000000, 1)],
      Selectbox [pystr ''20210''], Detail late_row,
      Table [late_row, scenario_row], Download [scenario_row, late_row]]"
    by (simp add: sample_defs page_defs)
  have sorted: "sort_values_desc [scenario_row, late_row] = [late_row, scenario_row]"
    by (simp add: sort_values_desc_def scenario_row_def late_row_def)
  show ?thesis
    using export_in_fetch_order [of "[scenario_row, late_row]" sample_parse no_engine
      "pystr ''202''" 0 "[scenario_record, late_record]"]
    unfolding pg sorted by simp
qed

end
